theory Spec2Isabelle
  imports Complex_Main "HOL-Library.Word"
begin

section \<open>BrowserWorld: controller hit-testing, event dispatch and the frame loop\<close>

text \<open>
  A shallow embedding of \<^verbatim>\<open>app/src/main/cpp/BrowserWorld.cpp\<close>: the controller
  record and its constructors, \<^verbatim>\<open>BrowserWorld::State::UpdateControllers\<close>, the lookup of
  the Java methods and the creation of the controller records in
  \<^verbatim>\<open>BrowserWorld::InitializeJava\<close>, and \<^verbatim>\<open>BrowserWorld::Draw\<close>.

  Conventions of the embedding.
  \<^item> A \<^verbatim>\<open>float\<close> that the program holds or receives is the real number it denotes:
    the values are taken to be finite, and NaN and the sign of zero are not represented.
    Comparisons of floats are comparisons of these numbers. The result of a float
    subtraction or multiplication is the exact result rounded to binary32 (nearest, ties to
    even), or an infinity when it overflows.
  \<^item> \<^verbatim>\<open>int32_t\<close> and \<^verbatim>\<open>uint32_t\<close> values that are only stored and passed on
    (controller index, widget handle) are 32-bit words. The gesture counter and the
    Java gesture code are compared and counted, never overflow, and are integers.
  \<^item> A pointer is an address (a natural number); a pointer that may be null is an
    option, \<open>None\<close> being \<^verbatim>\<open>nullptr\<close>.
  \<^item> A class whose implementation lives outside \<^verbatim>\<open>BrowserWorld.cpp\<close> (the matrix,
    the widget, the device and gesture delegates) is the record of the methods that
    the code calls on it.
  \<^item> Every \<^verbatim>\<open>env->CallVoidMethod\<close> is an element of the list of host calls that the
    function returns, in call order, together with the method handle it was made
    through.
\<close>

subsection \<open>Values of the vrb library\<close>

type_synonym float = real

subsection \<open>Float arithmetic\<close>

text \<open>The result of an operation on floats. A finite binary32 value is \<open>m * 2 ^ e\<close> with
  an integer \<open>m\<close>, \<open>\<bar>m\<bar> < 2 ^ 24\<close> and \<open>- 149 \<le> e \<le> 104\<close>.\<close>

datatype float32 = Finite float | PlusInfinity | MinusInfinity | NaN

definition pow2 :: "int \<Rightarrow> real" where
  "pow2 k = (if 0 \<le> k then 2 ^ nat k else 1 / 2 ^ nat (- k))"

text \<open>The binary exponent of a magnitude \<open>a\<close>, kept between \<open>- 126\<close> (the exponent of
  the subnormal numbers) and \<open>127\<close>: the \<open>k\<close> with \<open>2 ^ k \<le> a < 2 ^ (k + 1)\<close> when there is
  one in that range. The search starts at \<open>0\<close> and goes up or down.\<close>

primrec exponent_up :: "nat \<Rightarrow> real \<Rightarrow> int \<Rightarrow> int" where
  "exponent_up 0 a k = k"
| "exponent_up (Suc n) a k = (if pow2 (k + 1) \<le> a then exponent_up n a (k + 1) else k)"

primrec exponent_down :: "nat \<Rightarrow> real \<Rightarrow> int \<Rightarrow> int" where
  "exponent_down 0 a k = k"
| "exponent_down (Suc n) a k = (if a < pow2 k then exponent_down n a (k - 1) else k)"

definition exponent32 :: "real \<Rightarrow> int" where
  "exponent32 a = (if 1 \<le> a then exponent_up 127 a 0 else exponent_down 126 a 0)"

text \<open>Rounding to the nearest integer, a tie to the even one.\<close>

definition round_even :: "real \<Rightarrow> int" where
  "round_even y =
     (let f = \<lfloor>y\<rfloor>
      in if y - of_int f < 1 / 2 then f
         else if 1 / 2 < y - of_int f then f + 1
         else if even f then f else f + 1)"

text \<open>Rounding of an exact result to binary32: the magnitude is rounded to a multiple of
  the unit in the last place of its binade (24 significant bits), and a rounded magnitude
  of \<open>2 ^ 128\<close> or more is an infinity.\<close>

definition round32 :: "real \<Rightarrow> float32" where
  "round32 x =
     (let a = \<bar>x\<bar>;
          e = exponent32 a - 23;
          r = of_int (round_even (a / pow2 e)) * pow2 e
      in if pow2 128 \<le> r then (if 0 < x then PlusInfinity else MinusInfinity)
         else Finite (if x < 0 then - r else r))"

text \<open>\<^verbatim>\<open>a - b\<close> on two floats, and \<^verbatim>\<open>x * b\<close> for the result \<open>x\<close> of an operation and a
  float \<open>b\<close>.\<close>

definition float_sub :: "float \<Rightarrow> float \<Rightarrow> float32" where
  "float_sub a b = round32 (a - b)"

fun float_mul :: "float32 \<Rightarrow> float \<Rightarrow> float32" where
  "float_mul (Finite a) b = round32 (a * b)"
| "float_mul PlusInfinity b =
     (if 0 < b then PlusInfinity else if b < 0 then MinusInfinity else NaN)"
| "float_mul MinusInfinity b =
     (if 0 < b then MinusInfinity else if b < 0 then PlusInfinity else NaN)"
| "float_mul NaN b = NaN"

datatype Vector = Vector (vx: float) (vy: float) (vz: float)

record Matrix =
  MultiplyPosition :: "Vector \<Rightarrow> Vector"
  MultiplyDirection :: "Vector \<Rightarrow> Vector"
  GetTranslation :: Vector
  Quaternion :: "float \<times> float \<times> float \<times> float"

subsection \<open>Constants\<close>

definition WidgetTypeBrowser :: int where "WidgetTypeBrowser = 0"
definition WidgetTypeURLBar :: int where "WidgetTypeURLBar = 1"

definition GestureSwipeLeft :: int where "GestureSwipeLeft = 0"
definition GestureSwipeRight :: int where "GestureSwipeRight = 1"

definition kScrollFactor :: float where "kScrollFactor = 20"

definition kDispatchCreateWidgetName :: string where
  "kDispatchCreateWidgetName = ''dispatchCreateWidget''"
definition kDispatchCreateWidgetSignature :: string where
  "kDispatchCreateWidgetSignature = ''(IILandroid/graphics/SurfaceTexture;II)V''"
definition kHandleMotionEventName :: string where
  "kHandleMotionEventName = ''handleMotionEvent''"
definition kHandleMotionEventSignature :: string where
  "kHandleMotionEventSignature = ''(IIZFF)V''"
definition kHandleScrollEvent :: string where
  "kHandleScrollEvent = ''handleScrollEvent''"
definition kHandleScrollEventSignature :: string where
  "kHandleScrollEventSignature = ''(IIFF)V''"
definition kHandleAudioPoseName :: string where
  "kHandleAudioPoseName = ''handleAudioPose''"
definition kHandleAudioPoseSignature :: string where
  "kHandleAudioPoseSignature = ''(FFFFFFF)V''"
definition kHandleGestureName :: string where
  "kHandleGestureName = ''handleGesture''"
definition kHandleGestureSignature :: string where
  "kHandleGestureSignature = ''(I)V''"

subsection \<open>The controller record\<close>

type_synonym TransformPtr = nat

text \<open>The field \<open>touched\<close> is declared \<^verbatim>\<open>float\<close> in the source: \<^verbatim>\<open>true\<close> is stored as
  \<open>1\<close>, \<^verbatim>\<open>false\<close> as \<open>0\<close>, and a test of the field is a test for a non-zero value.\<close>

record ControllerRecord =
  index :: "32 word"
  widget :: "32 word"
  pressed :: bool
  xx :: float
  yy :: float
  touched :: float
  touchPadX :: float
  touchPadY :: float
  controller :: TransformPtr

text \<open>\<^verbatim>\<open>ControllerRecord(const int32_t aIndex)\<close>. The member \<open>controller\<close> is a
  default-constructed shared pointer; the caller assigns it right after construction, and the
  model takes the node as a second argument.\<close>

definition ControllerRecord_ctor :: "32 word \<Rightarrow> TransformPtr \<Rightarrow> ControllerRecord" where
  "ControllerRecord_ctor aIndex node =
     \<lparr> index = aIndex, widget = 0, pressed = False, xx = 0, yy = 0,
       touched = 0, touchPadX = 0, touchPadY = 0, controller = node \<rparr>"

text \<open>The copy constructor and the move constructor have the member initialisers
  \<^verbatim>\<open>widget(aRecord.widget), index(aRecord.index), controller(...)\<close> and an empty body. The
  other six members have no initialiser: they keep whatever the storage of the new object
  held. That storage is the first argument.\<close>

definition ControllerRecord_copy :: "ControllerRecord \<Rightarrow> ControllerRecord \<Rightarrow> ControllerRecord" where
  "ControllerRecord_copy storage aRecord =
     storage \<lparr> widget := widget aRecord, index := index aRecord, controller := controller aRecord \<rparr>"

definition ControllerRecord_move :: "ControllerRecord \<Rightarrow> ControllerRecord \<Rightarrow> ControllerRecord" where
  "ControllerRecord_move storage aRecord =
     storage \<lparr> widget := widget aRecord, index := index aRecord, controller := controller aRecord \<rparr>"

definition CopyValues :: "ControllerRecord \<Rightarrow> ControllerRecord \<Rightarrow> ControllerRecord" where
  "CopyValues this aRecord =
     this \<lparr> index := index aRecord, widget := widget aRecord, pressed := pressed aRecord,
            xx := xx aRecord, yy := yy aRecord, touched := touched aRecord,
            touchPadX := touchPadX aRecord, touchPadY := touchPadY aRecord \<rparr>"

text \<open>Both assignment operators: \<^verbatim>\<open>CopyValues(aRecord); controller = aRecord.controller\<close>.\<close>

definition ControllerRecord_assign :: "ControllerRecord \<Rightarrow> ControllerRecord \<Rightarrow> ControllerRecord" where
  "ControllerRecord_assign this aRecord = (CopyValues this aRecord) \<lparr> controller := controller aRecord \<rparr>"

subsection \<open>Collaborators\<close>

type_synonym jmethodID = "nat option"

type_synonym WidgetPtr = nat

text \<open>\<open>TestControllerIntersection w aStartPoint aDirection\<close> is the returned flag and the
  values of the three reference parameters \<^verbatim>\<open>aResult\<close>, \<^verbatim>\<open>aIsInWidget\<close>, \<^verbatim>\<open>aDistance\<close>
  after the call; \<open>ConvertToWidgetCoordinates w aPoint\<close> is the pair \<^verbatim>\<open>(aX, aY)\<close> after
  the call.\<close>

record Widget =
  GetHandle :: "32 word"
  TestControllerIntersection :: "Vector \<Rightarrow> Vector \<Rightarrow> bool \<times> Vector \<times> bool \<times> float"
  ConvertToWidgetCoordinates :: "Vector \<Rightarrow> float \<times> float"

text \<open>Modelled from the spec: the gesture kinds of the gesture source (its header is not
  among the sources): kind \<open>\<in>\<close> {SwipeLeft, SwipeRight, ...}.\<close>

datatype GestureType = SwipeLeft | SwipeRight | OtherGesture nat

record GestureDelegate =
  GetGestureCount :: int
  GetGestureType :: "int \<Rightarrow> GestureType"

text \<open>\<open>GetControllerButtonState d i b\<close> is the returned flag and the reference parameter
  \<^verbatim>\<open>aChanged\<close>; \<open>GetControllerScrolled d i\<close> is the returned flag and the two reference
  parameters.\<close>

record DeviceDelegate =
  GetControllerTransform :: "32 word \<Rightarrow> Matrix"
  GetControllerButtonState :: "32 word \<Rightarrow> int \<Rightarrow> bool \<times> bool"
  GetControllerScrolled :: "32 word \<Rightarrow> bool \<times> float \<times> float"
  GetHeadTransform :: Matrix

text \<open>A call of \<^verbatim>\<open>env->CallVoidMethod(activity, method, args...)\<close>, named after the Java
  method of the call site, with the method handle that the call passes.\<close>

datatype host_call =
    CallHandleMotionEvent jmethodID "32 word" "32 word" bool float float
  | CallHandleScrollEvent jmethodID "32 word" "32 word" float32 float32
  | CallHandleGesture jmethodID int
  | CallHandleAudioPose jmethodID float float float float float float float

datatype CameraEnum = CameraLeft | CameraRight

text \<open>What a frame does besides changing the state, in order: log lines, calls into the
  context, the device and the draw list, and host calls.\<close>

datatype frame_op =
    VRB_LOG string
  | Context_InitializeGL
  | ProcessEvents
  | Context_Update
  | Host host_call
  | DrawList_Reset
  | Cull
  | StartFrame
  | BindEye CameraEnum
  | DrawList_Draw CameraEnum
  | EndFrame

subsection \<open>The state of the world\<close>

text \<open>\<open>widgets\<close> is the vector of shared pointers, \<open>widget_objects\<close> the objects they point
  to. \<open>pointer_toggled\<close> is the pointer highlight of each widget object and
  \<open>node_transform\<close> the matrix of each controller node; these two and \<open>controllers\<close> are
  what \<^verbatim>\<open>UpdateControllers\<close> mutates. \<open>context_InitializeGL\<close> is what
  \<^verbatim>\<open>context->InitializeGL()\<close> returns when it is called.\<close>

record State =
  widgets :: "WidgetPtr list"
  widget_objects :: "WidgetPtr \<Rightarrow> Widget"
  pointer_toggled :: "WidgetPtr \<Rightarrow> bool"
  node_transform :: "TransformPtr \<Rightarrow> Matrix"
  device :: "DeviceDelegate option"
  paused :: bool
  glInitialized :: bool
  context_InitializeGL :: bool
  controllerCount :: int
  controllers :: "ControllerRecord list"
  nearClip :: float
  farClip :: float
  dispatchCreateWidgetMethod :: jmethodID
  handleMotionEventMethod :: jmethodID
  handleScrollEventMethod :: jmethodID
  handleAudioPoseMethod :: jmethodID
  handleGestureMethod :: jmethodID
  gestures :: "GestureDelegate option"

text \<open>Modelled from the spec: \<^verbatim>\<open>Widget::TogglePointer\<close> (\<^verbatim>\<open>Widget.cpp\<close> is not among the
  sources) shows or hides the pointer highlight of the widget it is called on.\<close>

definition TogglePointer :: "WidgetPtr \<Rightarrow> bool \<Rightarrow> (WidgetPtr \<Rightarrow> bool) \<Rightarrow> (WidgetPtr \<Rightarrow> bool)" where
  "TogglePointer w aEnabled ptr = ptr (w := aEnabled)"

text \<open>\<^verbatim>\<open>State()\<close>, lines 172-184. The objects that the constructor and the later
  initialisation create (widget objects, their highlights, controller nodes) and the answer
  of the context are arguments. \<open>nearClip\<close> is the float nearest to 0.1, the value of the
  literal \<^verbatim>\<open>0.1f\<close>.\<close>

definition State_ctor ::
  "(WidgetPtr \<Rightarrow> Widget) \<Rightarrow> (WidgetPtr \<Rightarrow> bool) \<Rightarrow> (TransformPtr \<Rightarrow> Matrix) \<Rightarrow> bool \<Rightarrow> State" where
  "State_ctor objs ptr nodes gl =
     \<lparr> widgets = [], widget_objects = objs, pointer_toggled = ptr, node_transform = nodes,
       device = None, paused = True, glInitialized = False, context_InitializeGL = gl,
       controllerCount = 0, controllers = [], nearClip = 13421773 / 134217728, farClip = 100,
       dispatchCreateWidgetMethod = None, handleMotionEventMethod = None, handleScrollEventMethod = None,
       handleAudioPoseMethod = None, handleGestureMethod = None, gestures = None \<rparr>"

subsection \<open>UpdateControllers\<close>

text \<open>The loop over the widgets (lines 222-234), on the pointer highlights and the three
  locals \<^verbatim>\<open>hitWidget\<close>, \<^verbatim>\<open>hitDistance\<close>, \<^verbatim>\<open>hitPoint\<close>.\<close>

fun widgets_loop ::
  "(WidgetPtr \<Rightarrow> Widget) \<Rightarrow> Vector \<Rightarrow> Vector \<Rightarrow> WidgetPtr list \<Rightarrow>
   (WidgetPtr \<Rightarrow> bool) \<times> WidgetPtr option \<times> float \<times> Vector \<Rightarrow>
   (WidgetPtr \<Rightarrow> bool) \<times> WidgetPtr option \<times> float \<times> Vector" where
  "widgets_loop objs start direction [] acc = acc"
| "widgets_loop objs start direction (w # rest) (ptr, hitWidget, hitDistance, hitPoint) =
     (let ptr' = TogglePointer w False ptr in
      case TestControllerIntersection (objs w) start direction of
        (hit, result, isInWidget, distance) \<Rightarrow>
          if hit \<and> isInWidget \<and> distance < hitDistance
          then widgets_loop objs start direction rest (ptr', Some w, distance, result)
          else widgets_loop objs start direction rest (ptr', hitWidget, hitDistance, hitPoint))"

text \<open>What \<^verbatim>\<open>TestControllerIntersection\<close> reports for a widget and a ray: a hit inside
  the widget, the distance, the point.\<close>

definition intersects :: "(WidgetPtr \<Rightarrow> Widget) \<Rightarrow> Vector \<Rightarrow> Vector \<Rightarrow> WidgetPtr \<Rightarrow> bool" where
  "intersects objs start direction w =
     (case TestControllerIntersection (objs w) start direction of
        (hit, result, isInWidget, distance) \<Rightarrow> hit \<and> isInWidget)"

definition distance_to :: "(WidgetPtr \<Rightarrow> Widget) \<Rightarrow> Vector \<Rightarrow> Vector \<Rightarrow> WidgetPtr \<Rightarrow> float" where
  "distance_to objs start direction w =
     (case TestControllerIntersection (objs w) start direction of
        (hit, result, isInWidget, distance) \<Rightarrow> distance)"

definition point_on :: "(WidgetPtr \<Rightarrow> Widget) \<Rightarrow> Vector \<Rightarrow> Vector \<Rightarrow> WidgetPtr \<Rightarrow> Vector" where
  "point_on objs start direction w =
     (case TestControllerIntersection (objs w) start direction of
        (hit, result, isInWidget, distance) \<Rightarrow> result)"

text \<open>The ray of a controller (lines 215-218).\<close>

definition ray_start :: "DeviceDelegate \<Rightarrow> ControllerRecord \<Rightarrow> Vector" where
  "ray_start d record = MultiplyPosition (GetControllerTransform d (index record)) (Vector 0 0 0)"

definition ray_direction :: "DeviceDelegate \<Rightarrow> ControllerRecord \<Rightarrow> Vector" where
  "ray_direction d record =
     MultiplyDirection (GetControllerTransform d (index record)) (Vector 0 0 (- 1))"

text \<open>The hit-test of one controller (lines 219-234): the widget loop started with no hit
  widget, \<^verbatim>\<open>hitDistance = farClip\<close> and a default-constructed \<^verbatim>\<open>hitPoint\<close>. The
  argument \<open>ptr\<close> is the pointer highlights when the loop starts.\<close>

abbreviation in_bounds_hit :: "DeviceDelegate \<Rightarrow> State \<Rightarrow> ControllerRecord \<Rightarrow> WidgetPtr \<Rightarrow> bool" where
  "in_bounds_hit d s record w \<equiv>
     intersects (widget_objects s) (ray_start d record) (ray_direction d record) w"

abbreviation hit_distance :: "DeviceDelegate \<Rightarrow> State \<Rightarrow> ControllerRecord \<Rightarrow> WidgetPtr \<Rightarrow> float" where
  "hit_distance d s record w \<equiv>
     distance_to (widget_objects s) (ray_start d record) (ray_direction d record) w"

abbreviation hit_point :: "DeviceDelegate \<Rightarrow> State \<Rightarrow> ControllerRecord \<Rightarrow> WidgetPtr \<Rightarrow> Vector" where
  "hit_point d s record w \<equiv>
     point_on (widget_objects s) (ray_start d record) (ray_direction d record) w"

definition hit_test ::
  "DeviceDelegate \<Rightarrow> State \<Rightarrow> (WidgetPtr \<Rightarrow> bool) \<Rightarrow> ControllerRecord \<Rightarrow>
   (WidgetPtr \<Rightarrow> bool) \<times> WidgetPtr option \<times> float \<times> Vector" where
  "hit_test d s ptr record =
     widgets_loop (widget_objects s) (ray_start d record) (ray_direction d record) (widgets s)
       (ptr, None, farClip s, Vector 0 0 0)"

text \<open>The gesture block (lines 235-249). The loop counter runs over \<open>0 \<le> count < gestureCount\<close>.\<close>

definition gesture_call :: "State \<Rightarrow> GestureDelegate \<Rightarrow> int \<Rightarrow> host_call list" where
  "gesture_call s g count =
     (let type = GetGestureType g count;
          javaType = (if type = SwipeLeft then GestureSwipeLeft
                      else if type = SwipeRight then GestureSwipeRight
                      else - 1)
      in if javaType \<ge> 0 \<and> handleGestureMethod s \<noteq> None
         then [CallHandleGesture (handleGestureMethod s) javaType]
         else [])"

primrec gesture_loop :: "State \<Rightarrow> GestureDelegate \<Rightarrow> int list \<Rightarrow> host_call list" where
  "gesture_loop s g [] = []"
| "gesture_loop s g (count # counts) = gesture_call s g count @ gesture_loop s g counts"

definition gesture_block :: "State \<Rightarrow> host_call list" where
  "gesture_block s =
     (case gestures s of
        None \<Rightarrow> []
      | Some g \<Rightarrow> gesture_loop s g (map int [0 ..< nat (GetGestureCount g)]))"

text \<open>Lines 252-264: the widget coordinates of the hit point, the button state, and the
  pointer event when one of the four values differs from the record.\<close>

definition motion_step ::
  "DeviceDelegate \<Rightarrow> State \<Rightarrow> WidgetPtr \<Rightarrow> Vector \<Rightarrow> ControllerRecord \<Rightarrow>
   ControllerRecord \<times> host_call list" where
  "motion_step d s hitWidget hitPoint record =
     (case ConvertToWidgetCoordinates (widget_objects s hitWidget) hitPoint of
        (theX, theY) \<Rightarrow>
          let pressed' = fst (GetControllerButtonState d (index record) 0);
              handle = GetHandle (widget_objects s hitWidget)
          in if xx record \<noteq> theX \<or> yy record \<noteq> theY \<or> pressed record \<noteq> pressed'
                \<or> widget record \<noteq> handle
             then (record \<lparr> widget := handle, xx := theX, yy := theY, pressed := pressed' \<rparr>,
                   [CallHandleMotionEvent (handleMotionEventMethod s) handle (index record)
                      pressed' theX theY])
             else (record, []))"

text \<open>Lines 265-276: the scroll step. The call is made through \<open>handleScrollEventMethod\<close>
  whatever its value: the source does not test it.\<close>

definition scroll_step ::
  "DeviceDelegate \<Rightarrow> State \<Rightarrow> ControllerRecord \<Rightarrow> ControllerRecord \<times> host_call list" where
  "scroll_step d s record =
     (case GetControllerScrolled d (index record) of
        (scrolled, scrollX, scrollY) \<Rightarrow>
          if scrolled
          then (record \<lparr> touched := 1, touchPadX := scrollX, touchPadY := scrollY \<rparr>,
                if touched record \<noteq> 0 \<and> \<not> pressed record
                then [CallHandleScrollEvent (handleScrollEventMethod s) (widget record)
                        (index record)
                        (float_mul (float_sub scrollX (touchPadX record)) kScrollFactor)
                        (float_mul (float_sub scrollY (touchPadY record)) kScrollFactor)]
                else [])
          else (record \<lparr> touched := 0 \<rparr>, []))"

text \<open>The body of the loop over the controller records (lines 215-277). It works on the
  record and on what the loop mutates besides: the pointer highlights, the controller nodes
  and the local vector \<^verbatim>\<open>active\<close>. The state \<open>s\<close> is read for the fields that the
  function never writes.\<close>

type_synonym scene = "(WidgetPtr \<Rightarrow> bool) \<times> (TransformPtr \<Rightarrow> Matrix) \<times> WidgetPtr list"

definition controller_body ::
  "DeviceDelegate \<Rightarrow> State \<Rightarrow> ControllerRecord \<Rightarrow> scene \<Rightarrow>
   ControllerRecord \<times> scene \<times> host_call list" where
  "controller_body d s record sc =
     (case sc of (ptr, nodes, active) \<Rightarrow>
        (let transform = GetControllerTransform d (index record);
             nodes' = nodes (controller record := transform)
         in (case hit_test d s ptr record of
               (ptr', hitWidget, hitDistance, hitPoint) \<Rightarrow>
                 (let gesture_calls = gesture_block s
                  in (case hitWidget of
                        None \<Rightarrow> (record, (ptr', nodes', active), gesture_calls)
                      | Some hw \<Rightarrow>
                          if handleMotionEventMethod s \<noteq> None
                          then (case motion_step d s hw hitPoint record of
                                  (record1, motion_calls) \<Rightarrow>
                                    (case scroll_step d s record1 of
                                       (record2, scroll_calls) \<Rightarrow>
                                         (record2, (ptr', nodes', active @ [hw]),
                                          gesture_calls @ motion_calls @ scroll_calls)))
                          else (record, (ptr', nodes', active), gesture_calls))))))"

fun controllers_loop ::
  "DeviceDelegate \<Rightarrow> State \<Rightarrow> ControllerRecord list \<Rightarrow> scene \<Rightarrow>
   ControllerRecord list \<times> scene \<times> host_call list" where
  "controllers_loop d s [] sc = ([], sc, [])"
| "controllers_loop d s (record # rest) sc =
     (case controller_body d s record sc of
        (record', sc', calls) \<Rightarrow>
          case controllers_loop d s rest sc' of
            (rest', sc'', calls') \<Rightarrow> (record' # rest', sc'', calls @ calls'))"

text \<open>Lines 279-281: every widget of \<^verbatim>\<open>active\<close> gets its pointer highlight.\<close>

primrec active_loop :: "WidgetPtr list \<Rightarrow> (WidgetPtr \<Rightarrow> bool) \<Rightarrow> (WidgetPtr \<Rightarrow> bool)" where
  "active_loop [] ptr = ptr"
| "active_loop (w # rest) ptr = active_loop rest (TogglePointer w True ptr)"

text \<open>\<^verbatim>\<open>UpdateControllers\<close> dereferences \<^verbatim>\<open>device\<close> without a test; its only caller,
  \<^verbatim>\<open>Draw\<close>, has tested it, and passes the delegate it found.\<close>

definition UpdateControllers :: "DeviceDelegate \<Rightarrow> State \<Rightarrow> State \<times> host_call list" where
  "UpdateControllers d s =
     (case controllers_loop d s (controllers s) (pointer_toggled s, node_transform s, []) of
        (records, (ptr, nodes, active), calls) \<Rightarrow>
          (s \<lparr> controllers := records, pointer_toggled := active_loop active ptr,
               node_transform := nodes \<rparr>,
           calls))"

subsection \<open>InitializeJava: the method handles and the controller records\<close>

text \<open>Lines 357-385: the five lookups of Java methods, each followed by a test that writes
  a log line. \<open>GetMethodID name signature\<close> is what \<^verbatim>\<open>env->GetMethodID(clazz, ...)\<close>
  returns, null when the class has no such method. The test after the lookup of the scroll
  method is \<^verbatim>\<open>if (m.handleScrollEventMethod)\<close>, without the negation of the other
  four.\<close>

definition failed_to_find :: "string \<Rightarrow> string \<Rightarrow> frame_op" where
  "failed_to_find name signature =
     VRB_LOG (''Failed to find Java method: '' @ name @ '' '' @ signature)"

definition InitializeJava_methods ::
  "(string \<Rightarrow> string \<Rightarrow> jmethodID) \<Rightarrow> State \<Rightarrow> State \<times> frame_op list" where
  "InitializeJava_methods GetMethodID s =
     (let s1 = s \<lparr> dispatchCreateWidgetMethod :=
                      GetMethodID kDispatchCreateWidgetName kDispatchCreateWidgetSignature \<rparr>;
          log1 = (if dispatchCreateWidgetMethod s1 = None
                  then [failed_to_find kDispatchCreateWidgetName kDispatchCreateWidgetSignature]
                  else []);
          s2 = s1 \<lparr> handleMotionEventMethod :=
                       GetMethodID kHandleMotionEventName kHandleMotionEventSignature \<rparr>;
          log2 = (if handleMotionEventMethod s2 = None
                  then [failed_to_find kHandleMotionEventName kHandleMotionEventSignature]
                  else []);
          s3 = s2 \<lparr> handleScrollEventMethod :=
                       GetMethodID kHandleScrollEvent kHandleScrollEventSignature \<rparr>;
          log3 = (if handleScrollEventMethod s3 \<noteq> None
                  then [failed_to_find kHandleScrollEvent kHandleScrollEventSignature]
                  else []);
          s4 = s3 \<lparr> handleAudioPoseMethod :=
                       GetMethodID kHandleAudioPoseName kHandleAudioPoseSignature \<rparr>;
          log4 = (if handleAudioPoseMethod s4 = None
                  then [failed_to_find kHandleAudioPoseName kHandleAudioPoseSignature]
                  else []);
          s5 = s4 \<lparr> handleGestureMethod :=
                       GetMethodID kHandleGestureName kHandleGestureSignature \<rparr>;
          log5 = (if handleGestureMethod s5 = None
                  then [failed_to_find kHandleGestureName kHandleGestureSignature]
                  else [])
      in (s5, log1 @ log2 @ log3 @ log4 @ log5))"

text \<open>\<^verbatim>\<open>controllers.push_back(std::move(record))\<close> move-constructs the new element in the
  storage of the vector. (A reallocation of the vector relocates the older elements through
  the same constructors; it is left out.)\<close>

definition push_back ::
  "ControllerRecord \<Rightarrow> ControllerRecord \<Rightarrow> ControllerRecord list \<Rightarrow> ControllerRecord list" where
  "push_back storage record v = v @ [ControllerRecord_move storage record]"

text \<open>Lines 394-405. \<open>create ix\<close> is the node that \<^verbatim>\<open>Transform::Create\<close> returns for
  controller \<open>ix\<close>, \<open>storage ix\<close> the content of the vector slot before the record is
  moved into it. Loading the controller model, the pointer geometry and the floor only
  change the scene graph.\<close>

primrec create_loop ::
  "(int \<Rightarrow> TransformPtr) \<Rightarrow> (int \<Rightarrow> ControllerRecord) \<Rightarrow> int list \<Rightarrow>
   ControllerRecord list \<Rightarrow> ControllerRecord list" where
  "create_loop create storage [] v = v"
| "create_loop create storage (ix # rest) v =
     create_loop create storage rest
       (push_back (storage ix) (ControllerRecord_ctor (word_of_int ix) (create ix)) v)"

definition create_controllers ::
  "(int \<Rightarrow> TransformPtr) \<Rightarrow> (int \<Rightarrow> ControllerRecord) \<Rightarrow> State \<Rightarrow> State" where
  "create_controllers create storage s =
     (if length (controllers s) = 0 \<and> controllerCount s > 0
      then s \<lparr> controllers :=
                 create_loop create storage (map int [0 ..< nat (controllerCount s)])
                   (controllers s) \<rparr>
      else s)"

subsection \<open>Draw\<close>

text \<open>Lines 488-494.\<close>

definition audio_pose :: "DeviceDelegate \<Rightarrow> State \<Rightarrow> host_call list" where
  "audio_pose d s =
     (if handleAudioPoseMethod s \<noteq> None
      then (let head = GetHeadTransform d;
                p = GetTranslation head
            in case Quaternion head of
                 (qx, qy, qz, qw) \<Rightarrow>
                   [CallHandleAudioPose (handleAudioPoseMethod s) qx qy qz qw (vx p) (vy p) (vz p)])
      else [])"

text \<open>Lines 473-494, reached when the three tests at the top of \<^verbatim>\<open>Draw\<close> have passed.
  \<open>no_vr_api\<close> is the build flag \<^verbatim>\<open>VRBROWSER_NO_VR_API\<close>.\<close>

definition render_frame :: "bool \<Rightarrow> DeviceDelegate \<Rightarrow> State \<Rightarrow> State \<times> frame_op list" where
  "render_frame no_vr_api d s =
     (case UpdateControllers d s of
        (s', calls) \<Rightarrow>
          (s', [ProcessEvents, Context_Update] @ map Host calls
               @ [DrawList_Reset, Cull, StartFrame, BindEye CameraLeft, DrawList_Draw CameraLeft]
               @ (if no_vr_api then [] else [BindEye CameraRight, DrawList_Draw CameraRight])
               @ [EndFrame]
               @ map Host (audio_pose d s')))"

definition Draw :: "bool \<Rightarrow> State \<Rightarrow> State \<times> frame_op list" where
  "Draw no_vr_api s =
     (case device s of
        None \<Rightarrow> (s, [VRB_LOG ''No device''])
      | Some d \<Rightarrow>
          if paused s then (s, [VRB_LOG ''BrowserWorld Paused''])
          else if \<not> glInitialized s
          then (let s1 = s \<lparr> glInitialized := context_InitializeGL s \<rparr>
                in if \<not> glInitialized s1
                   then (s1, [Context_InitializeGL, VRB_LOG ''FAILED to initialize GL''])
                   else (case render_frame no_vr_api d s1 of
                           (s2, ops) \<Rightarrow> (s2, Context_InitializeGL # ops)))
          else render_frame no_vr_api d s)"

subsection \<open>Concrete scenes\<close>

text \<open>A pose that leaves vectors as they are, a widget that answers every ray in the same
  way, a device that reports the same button and scroll state for every controller, and a
  running world built from them. They are the inputs at which the properties below are
  evaluated.\<close>

definition identity_pose :: Matrix where
  "identity_pose =
     \<lparr> MultiplyPosition = (\<lambda>v. v), MultiplyDirection = (\<lambda>v. v),
       GetTranslation = Vector 0 0 0, Quaternion = (0, 0, 0, 1) \<rparr>"

definition plain_widget :: "32 word \<Rightarrow> bool \<Rightarrow> bool \<Rightarrow> float \<Rightarrow> float \<Rightarrow> float \<Rightarrow> Widget" where
  "plain_widget h hit inside far lx ly =
     \<lparr> GetHandle = h,
       TestControllerIntersection = (\<lambda>start direction. (hit, Vector 0 0 (- far), inside, far)),
       ConvertToWidgetCoordinates = (\<lambda>p. (lx, ly)) \<rparr>"

definition plain_device :: "bool \<Rightarrow> bool \<times> float \<times> float \<Rightarrow> DeviceDelegate" where
  "plain_device button scroll =
     \<lparr> GetControllerTransform = (\<lambda>i. identity_pose),
       GetControllerButtonState = (\<lambda>i b. (button, False)),
       GetControllerScrolled = (\<lambda>i. scroll),
       GetHeadTransform = identity_pose \<rparr>"

definition running_world ::
  "(WidgetPtr \<Rightarrow> Widget) \<Rightarrow> WidgetPtr list \<Rightarrow> ControllerRecord list \<Rightarrow> DeviceDelegate \<Rightarrow> State" where
  "running_world objs ws records d =
     (State_ctor objs (\<lambda>w. False) (\<lambda>n. identity_pose) True)
       \<lparr> widgets := ws, device := Some d, paused := False, glInitialized := True,
         controllerCount := int (length records), controllers := records \<rparr>"

text \<open>A controller at rest: button up, no scroll delta.\<close>

definition still_device :: DeviceDelegate where
  "still_device = plain_device False (False, 0, 0)"

text \<open>One widget, in bounds, beyond the far clip distance.\<close>

definition far_widget :: "WidgetPtr \<Rightarrow> Widget" where
  "far_widget w = plain_widget 5 True True 150 100 50"

definition far_world :: State where
  "far_world = running_world far_widget [1] [ControllerRecord_ctor 0 0] still_device"

text \<open>Two widgets hit in bounds at the same distance.\<close>

definition twin_widgets :: "WidgetPtr \<Rightarrow> Widget" where
  "twin_widgets w = (if w = 1 then plain_widget 5 True True 18 100 50
                     else plain_widget 6 True True 18 30 40)"

text \<open>Two widgets hit in bounds at the same distance, in front of one controller.\<close>

definition twin_world :: State where
  "twin_world = running_world twin_widgets [1, 2] [ControllerRecord_ctor 0 0] still_device"

subsection \<open>What one pass of the controller loop does\<close>

text \<open>The widget and the point that the hit-test of a record ends with, and the record,
  the host calls and the additions to \<^verbatim>\<open>active\<close> that the loop body produces for it.
  (They do not depend on the highlights, nodes and \<^verbatim>\<open>active\<close> vector the body starts
  from; this is proved below.)\<close>


definition hitWidget_of :: "DeviceDelegate \<Rightarrow> State \<Rightarrow> ControllerRecord \<Rightarrow> WidgetPtr option" where
  "hitWidget_of d s record = fst (snd (hit_test d s (pointer_toggled s) record))"

definition hitPoint_of :: "DeviceDelegate \<Rightarrow> State \<Rightarrow> ControllerRecord \<Rightarrow> Vector" where
  "hitPoint_of d s record = snd (snd (snd (hit_test d s (pointer_toggled s) record)))"

definition body_record :: "DeviceDelegate \<Rightarrow> State \<Rightarrow> ControllerRecord \<Rightarrow> ControllerRecord" where
  "body_record d s record = fst (controller_body d s record (pointer_toggled s, node_transform s, []))"

definition body_calls :: "DeviceDelegate \<Rightarrow> State \<Rightarrow> ControllerRecord \<Rightarrow> host_call list" where
  "body_calls d s record = snd (snd (controller_body d s record (pointer_toggled s, node_transform s, [])))"

definition body_active :: "DeviceDelegate \<Rightarrow> State \<Rightarrow> ControllerRecord \<Rightarrow> WidgetPtr list" where
  "body_active d s record =
     snd (snd (fst (snd (controller_body d s record (pointer_toggled s, node_transform s, [])))))"

text \<open>The kinds of host calls.\<close>


fun is_motion_event :: "host_call \<Rightarrow> bool" where
  "is_motion_event (CallHandleMotionEvent m h i p x y) = True"
| "is_motion_event c = False"

fun is_scroll_event :: "host_call \<Rightarrow> bool" where
  "is_scroll_event (CallHandleScrollEvent m h i x y) = True"
| "is_scroll_event c = False"

fun is_gesture_event :: "host_call \<Rightarrow> bool" where
  "is_gesture_event (CallHandleGesture m t) = True"
| "is_gesture_event c = False"

text \<open>A widget hit in bounds at distance 18 and local coordinates (100, 50), with handle 5;
  a widget that the ray misses; records as constructed, after a pointer event, and after a
  touch of the touchpad; worlds with one widget and one controller.\<close>


definition near_widget :: "WidgetPtr \<Rightarrow> Widget" where
  "near_widget w = plain_widget 5 True True 18 100 50"

definition missed_widget :: "WidgetPtr \<Rightarrow> Widget" where
  "missed_widget w = plain_widget 5 False False 0 0 0"

definition with_handles :: "jmethodID \<Rightarrow> jmethodID \<Rightarrow> jmethodID \<Rightarrow> State \<Rightarrow> State" where
  "with_handles motion scroll gesture s =
     s \<lparr> handleMotionEventMethod := motion, handleScrollEventMethod := scroll,
         handleGestureMethod := gesture \<rparr>"

definition fresh_record :: ControllerRecord where
  "fresh_record = ControllerRecord_ctor 0 0"

definition sent_record :: ControllerRecord where
  "sent_record = fresh_record \<lparr> widget := 5, xx := 100, yy := 50 \<rparr>"

definition pointing_world :: "jmethodID \<Rightarrow> jmethodID \<Rightarrow> ControllerRecord \<Rightarrow> DeviceDelegate \<Rightarrow> State" where
  "pointing_world motion scroll record d =
     with_handles motion scroll None (running_world near_widget [1] [record] d)"

definition touched_record :: ControllerRecord where
  "touched_record = sent_record \<lparr> touched := 1, touchPadX := 1 / 4 \<rparr>"

text \<open>A record whose stored touchpad delta is the float nearest to 0.1.\<close>

definition tenth_record :: ControllerRecord where
  "tenth_record = sent_record \<lparr> touched := 1, touchPadX := 13421773 / 134217728 \<rparr>"

definition scroll_device :: "float \<Rightarrow> float \<Rightarrow> DeviceDelegate" where
  "scroll_device sx sy = plain_device False (True, sx, sy)"

definition away_world :: State where
  "away_world =
     with_handles (Some 1) (Some 2) None (running_world missed_widget [1] [touched_record] still_device)"

definition stale_world :: State where
  "stale_world =
     (with_handles (Some 1) (Some 2) None (running_world near_widget [1] [] still_device))
       \<lparr> pointer_toggled := (\<lambda>w. True) \<rparr>"

text \<open>A gesture source with a left swipe, a gesture of another kind and a right swipe
  pending, in a world whose controllers point at no widget.\<close>


definition swipe_source :: GestureDelegate where
  "swipe_source =
     \<lparr> GetGestureCount = 3,
       GetGestureType = (\<lambda>count. if count = 0 then SwipeLeft
                                 else if count = 1 then OtherGesture 0 else SwipeRight) \<rparr>"

definition gesture_world :: "jmethodID \<Rightarrow> ControllerRecord list \<Rightarrow> State" where
  "gesture_world gesture records =
     (with_handles None None gesture (running_world missed_widget [1] records still_device))
       \<lparr> gestures := Some swipe_source \<rparr>"

definition second_record :: ControllerRecord where
  "second_record = ControllerRecord_ctor 1 1"

text \<open>The content of a vector slot before a record is constructed in it: one left over
  from earlier use, one zeroed. A state with a registered one-controller device before the
  records are created. A paused world and a world whose device was unregistered.\<close>


definition stale_storage :: ControllerRecord where
  "stale_storage =
     \<lparr> index = 9, widget = 9, pressed = True, xx = 7, yy = 8,
       touched = 1, touchPadX = 3, touchPadY = 4, controller = 9 \<rparr>"

definition zero_storage :: ControllerRecord where
  "zero_storage =
     \<lparr> index = 0, widget = 0, pressed = False, xx = 0, yy = 0,
       touched = 0, touchPadX = 0, touchPadY = 0, controller = 0 \<rparr>"

definition one_controller_device :: State where
  "one_controller_device =
     (State_ctor near_widget (\<lambda>w. False) (\<lambda>n. identity_pose) True)
       \<lparr> device := Some still_device, controllerCount := 1 \<rparr>"

definition paused_world :: State where
  "paused_world = (pointing_world (Some 1) (Some 2) fresh_record still_device) \<lparr> paused := True \<rparr>"

text \<open>An activity class with all five methods, and one without the scroll method.\<close>

definition full_class :: "string \<Rightarrow> string \<Rightarrow> jmethodID" where
  "full_class name signature = Some (length name)"

definition class_without_scroll :: "string \<Rightarrow> string \<Rightarrow> jmethodID" where
  "class_without_scroll name signature =
     (if name = kHandleScrollEvent then None else Some (length name))"

definition unregistered_world :: State where
  "unregistered_world = (pointing_world (Some 1) (Some 2) fresh_record still_device) \<lparr> device := None \<rparr>"


text \<open>The operations of a frame on the draw list, the eyes and the frame of the device.\<close>


fun is_render_op :: "frame_op \<Rightarrow> bool" where
  "is_render_op DrawList_Reset = True"
| "is_render_op Cull = True"
| "is_render_op StartFrame = True"
| "is_render_op (BindEye eye) = True"
| "is_render_op (DrawList_Draw eye) = True"
| "is_render_op EndFrame = True"
| "is_render_op op = False"

section \<open>Properties\<close>

subsection \<open>The widget loop\<close>

lemma widgets_loop_Cons:
  "widgets_loop objs st dir (w # rest) (ptr, hitW, hitD, hitP) =
     (if intersects objs st dir w \<and> distance_to objs st dir w < hitD
      then widgets_loop objs st dir rest
             (TogglePointer w False ptr, Some w, distance_to objs st dir w, point_on objs st dir w)
      else widgets_loop objs st dir rest (TogglePointer w False ptr, hitW, hitD, hitP))"
  by (auto simp: intersects_def distance_to_def point_on_def Let_def split: prod.splits)

lemma widgets_loop_ptr:
  "fst (widgets_loop objs st dir ws (ptr, hitW, hitD, hitP)) =
     (\<lambda>p. if p \<in> set ws then False else ptr p)"
  by (induction ws arbitrary: ptr hitW hitD hitP)
     (auto simp: widgets_loop_Cons TogglePointer_def simp del: widgets_loop.simps(2))

lemma widgets_loop_none:
  "\<forall>v \<in> set ws. intersects objs st dir v \<longrightarrow> hitD \<le> distance_to objs st dir v \<Longrightarrow>
   snd (widgets_loop objs st dir ws (ptr, hitW, hitD, hitP)) = (hitW, hitD, hitP)"
  by (induction ws arbitrary: ptr) (auto simp: widgets_loop_Cons simp del: widgets_loop.simps(2))

text \<open>When some widget is hit in bounds closer than the starting distance, the loop ends
  on the first widget of least distance: the widgets before it are strictly farther, the
  widgets after it are not closer.\<close>

lemma widgets_loop_some:
  "\<exists>v \<in> set ws. intersects objs st dir v \<and> distance_to objs st dir v < hitD \<Longrightarrow>
   \<exists>pre w post. ws = pre @ w # post
     \<and> snd (widgets_loop objs st dir ws (ptr, hitW, hitD, hitP))
         = (Some w, distance_to objs st dir w, point_on objs st dir w)
     \<and> intersects objs st dir w \<and> distance_to objs st dir w < hitD
     \<and> (\<forall>v \<in> set pre. intersects objs st dir v \<longrightarrow> distance_to objs st dir w < distance_to objs st dir v)
     \<and> (\<forall>v \<in> set post. intersects objs st dir v \<longrightarrow> distance_to objs st dir w \<le> distance_to objs st dir v)"
proof (induction ws arbitrary: ptr hitW hitD hitP)
  case Nil
  then show ?case by simp
next
  case (Cons a ws)
  let ?D = "distance_to objs st dir"
  let ?I = "intersects objs st dir"
  let ?P = "point_on objs st dir"
  show ?case
  proof (cases "?I a \<and> ?D a < hitD")
    case True
    show ?thesis
    proof (cases "\<exists>v \<in> set ws. ?I v \<and> ?D v < ?D a")
      case closer: True
      from Cons.IH [OF closer, of "TogglePointer a False ptr" "Some a" "?P a"]
      obtain pre w post where sp: "ws = pre @ w # post"
        and res: "snd (widgets_loop objs st dir ws (TogglePointer a False ptr, Some a, ?D a, ?P a))
                   = (Some w, ?D w, ?P w)"
        and w: "?I w" "?D w < ?D a"
        and pre: "\<forall>v \<in> set pre. ?I v \<longrightarrow> ?D w < ?D v"
        and post: "\<forall>v \<in> set post. ?I v \<longrightarrow> ?D w \<le> ?D v"
        by blast
      have "a # ws = (a # pre) @ w # post" using sp by simp
      moreover have "snd (widgets_loop objs st dir (a # ws) (ptr, hitW, hitD, hitP)) = (Some w, ?D w, ?P w)"
        using True res by (simp add: widgets_loop_Cons del: widgets_loop.simps(2))
      moreover have "?D w < hitD" using w True by simp
      moreover have "\<forall>v \<in> set (a # pre). ?I v \<longrightarrow> ?D w < ?D v" using pre w by simp
      ultimately show ?thesis using w(1) post by blast
    next
      case no_closer: False
      then have later: "\<forall>v \<in> set ws. ?I v \<longrightarrow> ?D a \<le> ?D v" by auto
      from widgets_loop_none [OF later]
      have "snd (widgets_loop objs st dir (a # ws) (ptr, hitW, hitD, hitP)) = (Some a, ?D a, ?P a)"
        using True by (simp add: widgets_loop_Cons del: widgets_loop.simps(2))
      moreover have "a # ws = [] @ a # ws" by simp
      moreover have "\<forall>v \<in> set []. ?I v \<longrightarrow> ?D a < ?D v" by simp
      ultimately show ?thesis using True later by blast
    qed
  next
    case False
    with Cons.prems have ex: "\<exists>v \<in> set ws. ?I v \<and> ?D v < hitD" by auto
    from Cons.IH [OF ex, of "TogglePointer a False ptr" hitW hitP]
    obtain pre w post where sp: "ws = pre @ w # post"
      and res: "snd (widgets_loop objs st dir ws (TogglePointer a False ptr, hitW, hitD, hitP))
                 = (Some w, ?D w, ?P w)"
      and w: "?I w" "?D w < hitD"
      and pre: "\<forall>v \<in> set pre. ?I v \<longrightarrow> ?D w < ?D v"
      and post: "\<forall>v \<in> set post. ?I v \<longrightarrow> ?D w \<le> ?D v"
      by blast
    have "a # ws = (a # pre) @ w # post" using sp by simp
    moreover have "snd (widgets_loop objs st dir (a # ws) (ptr, hitW, hitD, hitP)) = (Some w, ?D w, ?P w)"
      using False res by (auto simp add: widgets_loop_Cons simp del: widgets_loop.simps(2))
    moreover have "\<forall>v \<in> set (a # pre). ?I v \<longrightarrow> ?D w < ?D v" using pre w False by auto
    ultimately show ?thesis using w post by blast
  qed
qed

lemma hit_test_ptr:
  "fst (hit_test d s ptr record) = (\<lambda>p. if p \<in> set (widgets s) then False else ptr p)"
  by (simp add: hit_test_def widgets_loop_ptr)

lemma hit_test_ptr_irrelevant:
  "snd (hit_test d s ptr record) = snd (hit_test d s ptr' record)"
proof -
  have "snd (widgets_loop objs st dir ws (p, acc)) = snd (widgets_loop objs st dir ws (p', acc))"
    for objs st dir ws p p' and acc :: "WidgetPtr option \<times> float \<times> Vector"
    by (induction ws arbitrary: p p' acc)
       (auto simp: widgets_loop_Cons split_paired_all simp del: widgets_loop.simps(2))
  then show ?thesis by (simp add: hit_test_def)
qed

subsection \<open>Nearest hit\<close>

text \<open>C10. In the hit-test of \<^verbatim>\<open>UpdateControllers\<close>, a widget that the ray hits in bounds at
  a distance greater than or equal to \<open>farClip\<close> is never the selected widget, and when
  every in-bounds hit is that far the hit-test selects no widget at all. The far clip
  distance of a freshly constructed state is 100.\<close>

theorem C10_far_hit_never_selected:
  "(in_bounds_hit d s record w \<and> farClip s \<le> hit_distance d s record w
      \<longrightarrow> fst (snd (hit_test d s ptr record)) \<noteq> Some w)
   \<and> ((\<forall>v \<in> set (widgets s). in_bounds_hit d s record v \<longrightarrow> farClip s \<le> hit_distance d s record v)
      \<longrightarrow> fst (snd (hit_test d s ptr record)) = None)
   \<and> farClip (State_ctor objs ptr0 nodes gl) = 100"
proof (intro conjI impI)
  assume far: "in_bounds_hit d s record w \<and> farClip s \<le> hit_distance d s record w"
  show "fst (snd (hit_test d s ptr record)) \<noteq> Some w"
  proof (cases "\<exists>v \<in> set (widgets s). in_bounds_hit d s record v \<and> hit_distance d s record v < farClip s")
    case True
    from widgets_loop_some [OF True, of ptr None "Vector 0 0 0"]
    obtain w' where "fst (snd (hit_test d s ptr record)) = Some w'"
      and "hit_distance d s record w' < farClip s"
      by (auto simp: hit_test_def)
    with far show ?thesis by auto
  next
    case False
    then have "\<forall>v \<in> set (widgets s). in_bounds_hit d s record v \<longrightarrow> farClip s \<le> hit_distance d s record v"
      by auto
    from widgets_loop_none [OF this, of ptr None "Vector 0 0 0"]
    show ?thesis by (simp add: hit_test_def)
  qed
next
  assume "\<forall>v \<in> set (widgets s). in_bounds_hit d s record v \<longrightarrow> farClip s \<le> hit_distance d s record v"
  from widgets_loop_none [OF this, of ptr None "Vector 0 0 0"]
  show "fst (snd (hit_test d s ptr record)) = None" by (simp add: hit_test_def)
next
  show "farClip (State_ctor objs ptr0 nodes gl) = 100" by (simp add: State_ctor_def)
qed

theorem C10_far_hit_never_selected_witness:
  "in_bounds_hit still_device far_world (ControllerRecord_ctor 0 0) 1
   \<and> farClip far_world \<le> hit_distance still_device far_world (ControllerRecord_ctor 0 0) 1
   \<and> set (widgets far_world) = {1}
   \<and> fst (snd (hit_test still_device far_world (\<lambda>w. False) (ControllerRecord_ctor 0 0))) = None"
  using C10_far_hit_never_selected
          [of far_world still_device "ControllerRecord_ctor 0 0" 1 "\<lambda>w. False"]
  by (simp add: intersects_def distance_to_def far_world_def running_world_def State_ctor_def
        far_widget_def plain_widget_def)

text \<open>C1, as stated, fails: a widget hit in bounds beyond the far clip distance is the only
  candidate and the hit-test selects nothing.\<close>

theorem C1_counterexample:
  "1 \<in> set (widgets far_world)
   \<and> in_bounds_hit still_device far_world (ControllerRecord_ctor 0 0) 1
   \<and> fst (snd (hit_test still_device far_world (pointer_toggled far_world) (ControllerRecord_ctor 0 0))) = None"
  by (simp add: hit_test_def intersects_def far_world_def running_world_def State_ctor_def
        far_widget_def plain_widget_def TogglePointer_def)

text \<open>C1, amended. When some widget of the list is hit in bounds at a distance below
  \<open>farClip\<close>, the hit-test selects the first widget, in insertion order, of least distance
  among all in-bounds hits: every in-bounds hit before it in the list is strictly farther,
  every in-bounds hit after it is at least as far. Otherwise it selects no widget.\<close>

theorem C1_nearest_hit_within_farClip:
  "if \<exists>v \<in> set (widgets s). in_bounds_hit d s record v \<and> hit_distance d s record v < farClip s
   then \<exists>pre w post. widgets s = pre @ w # post
          \<and> snd (hit_test d s ptr record) = (Some w, hit_distance d s record w, hit_point d s record w)
          \<and> in_bounds_hit d s record w \<and> hit_distance d s record w < farClip s
          \<and> (\<forall>v \<in> set pre. in_bounds_hit d s record v \<longrightarrow> hit_distance d s record w < hit_distance d s record v)
          \<and> (\<forall>v \<in> set post. in_bounds_hit d s record v \<longrightarrow> hit_distance d s record w \<le> hit_distance d s record v)
   else snd (hit_test d s ptr record) = (None, farClip s, Vector 0 0 0)"
proof (cases "\<exists>v \<in> set (widgets s). in_bounds_hit d s record v \<and> hit_distance d s record v < farClip s")
  case True
  from widgets_loop_some [OF True, of ptr None "Vector 0 0 0"] True
  show ?thesis unfolding hit_test_def by simp
next
  case False
  then have "\<forall>v \<in> set (widgets s). in_bounds_hit d s record v \<longrightarrow> farClip s \<le> hit_distance d s record v"
    by auto
  from widgets_loop_none [OF this, of ptr None "Vector 0 0 0"] False
  show ?thesis unfolding hit_test_def by simp
qed

theorem C1_nearest_hit_within_farClip_witness:
  "(\<exists>v \<in> set (widgets twin_world). in_bounds_hit still_device twin_world (ControllerRecord_ctor 0 0) v
        \<and> hit_distance still_device twin_world (ControllerRecord_ctor 0 0) v < farClip twin_world)
   \<and> hit_distance still_device twin_world (ControllerRecord_ctor 0 0) 1
       = hit_distance still_device twin_world (ControllerRecord_ctor 0 0) 2
   \<and> fst (snd (hit_test still_device twin_world (pointer_toggled twin_world) (ControllerRecord_ctor 0 0))) = Some 1"
proof -
  have ex: "\<exists>v \<in> set (widgets twin_world). in_bounds_hit still_device twin_world (ControllerRecord_ctor 0 0) v
        \<and> hit_distance still_device twin_world (ControllerRecord_ctor 0 0) v < farClip twin_world"
    by (simp add: intersects_def distance_to_def twin_world_def running_world_def State_ctor_def
          twin_widgets_def plain_widget_def)
  have eq: "hit_distance still_device twin_world (ControllerRecord_ctor 0 0) 1
       = hit_distance still_device twin_world (ControllerRecord_ctor 0 0) 2"
    by (simp add: distance_to_def twin_world_def running_world_def State_ctor_def
          twin_widgets_def plain_widget_def)
  have ws: "widgets twin_world = [1, 2]"
    by (simp add: twin_world_def running_world_def State_ctor_def)
  have hit2: "in_bounds_hit still_device twin_world (ControllerRecord_ctor 0 0) 1"
    by (simp add: intersects_def twin_world_def running_world_def State_ctor_def
          twin_widgets_def plain_widget_def)
  from C1_nearest_hit_within_farClip
         [of twin_world still_device "ControllerRecord_ctor 0 0" "pointer_toggled twin_world"] ex
  obtain pre w post where sp: "widgets twin_world = pre @ w # post"
    and res: "fst (snd (hit_test still_device twin_world (pointer_toggled twin_world) (ControllerRecord_ctor 0 0))) = Some w"
    and pre: "\<forall>v \<in> set pre. in_bounds_hit still_device twin_world (ControllerRecord_ctor 0 0) v \<longrightarrow>
                hit_distance still_device twin_world (ControllerRecord_ctor 0 0) w
                  < hit_distance still_device twin_world (ControllerRecord_ctor 0 0) v"
    by auto
  have "w = 1"
  proof (rule ccontr)
    assume "w \<noteq> 1"
    with sp ws have "pre = [1]" "w = 2" by (auto simp: Cons_eq_append_conv)
    with pre hit2 eq show False by simp
  qed
  with ex eq res show ?thesis by simp
qed

subsection \<open>The loop body and the loop\<close>


lemma hit_test_split:
  "hit_test d s ptr record =
     (\<lambda>p. if p \<in> set (widgets s) then False else ptr p,
      hitWidget_of d s record,
      fst (snd (snd (hit_test d s (pointer_toggled s) record))),
      hitPoint_of d s record)"
proof -
  have "hit_test d s ptr record = (fst (hit_test d s ptr record), snd (hit_test d s ptr record))"
    by simp
  also have "snd (hit_test d s ptr record) = snd (hit_test d s (pointer_toggled s) record)"
    by (rule hit_test_ptr_irrelevant)
  finally show ?thesis
    by (simp add: hit_test_ptr hitWidget_of_def hitPoint_of_def)
qed

lemma controller_body_unfold:
  "controller_body d s record (ptr, nodes, active) =
     (let ptr' = (\<lambda>p. if p \<in> set (widgets s) then False else ptr p);
          nodes' = nodes (controller record := GetControllerTransform d (index record))
      in case hitWidget_of d s record of
           None \<Rightarrow> (record, (ptr', nodes', active), gesture_block s)
         | Some hw \<Rightarrow>
             if handleMotionEventMethod s \<noteq> None
             then (case motion_step d s hw (hitPoint_of d s record) record of
                     (record1, motion_calls) \<Rightarrow>
                       (case scroll_step d s record1 of
                          (record2, scroll_calls) \<Rightarrow>
                            (record2, (ptr', nodes', active @ [hw]),
                             gesture_block s @ motion_calls @ scroll_calls)))
             else (record, (ptr', nodes', active), gesture_block s))"
proof -
  obtain hD where h: "hit_test d s ptr record =
     (\<lambda>p. if p \<in> set (widgets s) then False else ptr p, hitWidget_of d s record, hD, hitPoint_of d s record)"
    using hit_test_split [of d s ptr "record"] by blast
  show ?thesis
    unfolding controller_body_def
    by (simp only: h prod.case Let_def)
qed

lemma controller_body_eq:
  "controller_body d s record (ptr, nodes, active) =
     (body_record d s record,
      (\<lambda>p. if p \<in> set (widgets s) then False else ptr p,
       nodes (controller record := GetControllerTransform d (index record)),
       active @ body_active d s record),
      body_calls d s record)"
  unfolding body_record_def body_calls_def body_active_def controller_body_unfold
  by (simp add: Let_def split: option.split prod.split)

lemma controllers_loop_eq:
  "controllers_loop d s rs (ptr, nodes, active) =
     (map (body_record d s) rs,
      (\<lambda>p. if rs \<noteq> [] \<and> p \<in> set (widgets s) then False else ptr p,
       fold (\<lambda>r n. n (controller r := GetControllerTransform d (index r))) rs nodes,
       active @ concat (map (body_active d s) rs)),
      concat (map (body_calls d s) rs))"
proof (induction rs arbitrary: ptr nodes active)
  case Nil
  show ?case by simp
next
  case (Cons r rs)
  show ?case
    by (simp add: controller_body_eq Cons.IH) (rule ext, auto)
qed

lemma active_loop_eq: "active_loop ws ptr = (\<lambda>p. if p \<in> set ws then True else ptr p)"
  by (induction ws arbitrary: ptr) (auto simp: TogglePointer_def)

lemma UpdateControllers_eq:
  "UpdateControllers d s =
     (s \<lparr> controllers := map (body_record d s) (controllers s),
          pointer_toggled :=
            (\<lambda>p. if p \<in> set (concat (map (body_active d s) (controllers s))) then True
                 else if controllers s \<noteq> [] \<and> p \<in> set (widgets s) then False
                 else pointer_toggled s p),
          node_transform :=
            fold (\<lambda>r n. n (controller r := GetControllerTransform d (index r))) (controllers s)
              (node_transform s) \<rparr>,
      concat (map (body_calls d s) (controllers s)))"
  by (simp add: UpdateControllers_def controllers_loop_eq active_loop_eq)

lemma gesture_loop_only_gestures: "\<forall>c \<in> set (gesture_loop s g counts). is_gesture_event c"
  by (induction counts) (auto simp: gesture_call_def Let_def)

lemma gesture_block_only_gestures: "\<forall>c \<in> set (gesture_block s). is_gesture_event c"
  using gesture_loop_only_gestures by (auto simp: gesture_block_def split: option.split)

lemma gesture_block_no_motion [simp]: "filter is_motion_event (gesture_block s) = []"
proof -
  have "\<forall>c \<in> set (gesture_block s). \<not> is_motion_event c"
    using gesture_block_only_gestures [of s] by (metis is_gesture_event.elims(2) is_motion_event.simps(3))
  then show ?thesis by (simp add: filter_empty_conv)
qed

lemma gesture_block_no_scroll [simp]: "filter is_scroll_event (gesture_block s) = []"
proof -
  have "\<forall>c \<in> set (gesture_block s). \<not> is_scroll_event c"
    using gesture_block_only_gestures [of s] by (metis is_gesture_event.elims(2) is_scroll_event.simps(3))
  then show ?thesis by (simp add: filter_empty_conv)
qed

lemma gesture_block_all_gestures [simp]: "filter is_gesture_event (gesture_block s) = gesture_block s"
  using gesture_block_only_gestures [of s] by (simp add: filter_id_conv)

lemma body_entered:
  assumes "handleMotionEventMethod s \<noteq> None" and "hitWidget_of d s record = Some hw"
  shows "body_record d s record
           = fst (scroll_step d s (fst (motion_step d s hw (hitPoint_of d s record) record)))"
    and "body_calls d s record
           = gesture_block s @ snd (motion_step d s hw (hitPoint_of d s record) record)
               @ snd (scroll_step d s (fst (motion_step d s hw (hitPoint_of d s record) record)))"
    and "body_active d s record = [hw]"
  using assms
  unfolding body_record_def body_calls_def body_active_def controller_body_unfold
  by (simp_all add: Let_def split: prod.split)

lemma body_skipped:
  assumes "handleMotionEventMethod s = None \<or> hitWidget_of d s record = None"
  shows "body_record d s record = record"
    and "body_calls d s record = gesture_block s"
    and "body_active d s record = []"
  using assms
  unfolding body_record_def body_calls_def body_active_def controller_body_unfold
  by (auto simp add: Let_def split: prod.split option.split)

lemma motion_step_fields:
  "index (fst (motion_step d s hw pt record)) = index record"
  "touched (fst (motion_step d s hw pt record)) = touched record"
  "touchPadX (fst (motion_step d s hw pt record)) = touchPadX record"
  "touchPadY (fst (motion_step d s hw pt record)) = touchPadY record"
  "pressed (fst (motion_step d s hw pt record)) = fst (GetControllerButtonState d (index record) 0)"
  "widget (fst (motion_step d s hw pt record)) = GetHandle (widget_objects s hw)"
  "xx (fst (motion_step d s hw pt record)) = fst (ConvertToWidgetCoordinates (widget_objects s hw) pt)"
  "yy (fst (motion_step d s hw pt record)) = snd (ConvertToWidgetCoordinates (widget_objects s hw) pt)"
  by (auto simp: motion_step_def Let_def split: prod.split)

lemma motion_step_calls:
  "snd (motion_step d s hw pt record) =
     (if xx record = fst (ConvertToWidgetCoordinates (widget_objects s hw) pt)
         \<and> yy record = snd (ConvertToWidgetCoordinates (widget_objects s hw) pt)
         \<and> pressed record = fst (GetControllerButtonState d (index record) 0)
         \<and> widget record = GetHandle (widget_objects s hw)
      then []
      else [CallHandleMotionEvent (handleMotionEventMethod s) (GetHandle (widget_objects s hw))
              (index record) (fst (GetControllerButtonState d (index record) 0))
              (fst (ConvertToWidgetCoordinates (widget_objects s hw) pt))
              (snd (ConvertToWidgetCoordinates (widget_objects s hw) pt))])"
  by (auto simp: motion_step_def Let_def split: prod.split)

lemma scroll_step_fields:
  "index (fst (scroll_step d s record)) = index record"
  "pressed (fst (scroll_step d s record)) = pressed record"
  "widget (fst (scroll_step d s record)) = widget record"
  "xx (fst (scroll_step d s record)) = xx record"
  "yy (fst (scroll_step d s record)) = yy record"
  by (auto simp: scroll_step_def split: prod.split)

lemma scroll_step_no_motion [simp]: "filter is_motion_event (snd (scroll_step d s record)) = []"
  by (auto simp: scroll_step_def split: prod.split)

lemma motion_step_no_scroll [simp]: "filter is_scroll_event (snd (motion_step d s hw pt record)) = []"
  by (auto simp: motion_step_def Let_def split: prod.split)

subsection \<open>Float arithmetic at the values of the concrete frames\<close>

lemma round32_zero: "round32 0 = Finite 0"
  by code_simp

lemma round32_quarter: "round32 (1 / 4) = Finite (1 / 4)"
  by code_simp

lemma round32_five: "round32 5 = Finite 5"
  by code_simp

text \<open>The floats nearest to 0.15 and to 0.1 are \<open>5033165 / 33554432\<close> and
  \<open>13421773 / 134217728\<close>. Their difference is a float; its product with 20 is not, and is
  rounded up to \<open>1 + 2 ^ - 23\<close>.\<close>

lemma round32_fifteen_minus_ten: "round32 (6710887 / 134217728) = Finite (6710887 / 134217728)"
  by code_simp

lemma round32_times_twenty: "round32 (33554435 / 33554432) = Finite (8388609 / 8388608)"
  by code_simp

text \<open>A tie goes to the even significand: \<open>2 ^ 24 + 1\<close> is rounded down and
  \<open>2 ^ 24 + 3\<close> up.\<close>

lemma round32_ties_to_even:
  "round32 16777217 = Finite 16777216 \<and> round32 16777219 = Finite 16777220"
  by code_simp

text \<open>The difference of the largest float and its negative overflows.\<close>

lemma float_sub_overflow:
  "float_mul (float_sub 340282346638528859811704183484516925440
                (- 340282346638528859811704183484516925440)) 20 = PlusInfinity"
  by code_simp

text \<open>The definitions that evaluate a concrete frame.\<close>


lemmas scene_defs =
  UpdateControllers_def controller_body_def hit_test_def ray_start_def ray_direction_def
  motion_step_def scroll_step_def gesture_block_def gesture_call_def TogglePointer_def
  hitWidget_of_def hitPoint_of_def body_calls_def body_record_def
  identity_pose_def plain_widget_def plain_device_def running_world_def State_ctor_def
  ControllerRecord_ctor_def still_device_def near_widget_def missed_widget_def
  with_handles_def fresh_record_def sent_record_def pointing_world_def kScrollFactor_def
  touched_record_def tenth_record_def scroll_device_def away_world_def stale_world_def
  float_sub_def round32_zero round32_quarter round32_five
  round32_fifteen_minus_ten round32_times_twenty
  GestureSwipeLeft_def GestureSwipeRight_def

subsection \<open>Pointer events\<close>

text \<open>C2, as stated, fails: with a null motion-event handle a controller has a nearest hit
  widget, its coordinates differ from the record, and no pointer event is emitted and the
  record keeps its values.\<close>


theorem C2_counterexample:
  "hitWidget_of still_device (pointing_world None None fresh_record still_device) fresh_record = Some 1
   \<and> xx fresh_record = 0
   \<and> ConvertToWidgetCoordinates (widget_objects (pointing_world None None fresh_record still_device) 1)
        (hitPoint_of still_device (pointing_world None None fresh_record still_device) fresh_record)
       = (100, 50)
   \<and> snd (UpdateControllers still_device (pointing_world None None fresh_record still_device)) = []
   \<and> xx (controllers (fst (UpdateControllers still_device
            (pointing_world None None fresh_record still_device))) ! 0) = 0"
  by (simp add: scene_defs)

text \<open>C2, amended. When the motion-event handle is not null, for every controller record
  with a nearest hit widget: if the widget coordinates of the hit point, the button state and
  the widget handle computed this frame all equal the record's values, the loop body emits
  no pointer event for the record and leaves the four fields as they are; if one of them
  differs, it emits exactly one pointer event, carrying the four current values and the
  controller index, and the record holds the four current values afterwards. When the
  motion-event handle is null, no pointer event is emitted for a record and the record is
  unchanged. The host calls of the frame are the calls of the loop body for each record, in
  order.\<close>

theorem C2_edge_triggered_pointer_event:
  "(handleMotionEventMethod s \<noteq> None \<and> k < length (controllers s)
      \<and> hitWidget_of d s (controllers s ! k) = Some hw \<longrightarrow>
      (case ConvertToWidgetCoordinates (widget_objects s hw) (hitPoint_of d s (controllers s ! k)) of
         (theX, theY) \<Rightarrow>
           let r = controllers s ! k;
               r' = controllers (fst (UpdateControllers d s)) ! k;
               pressed' = fst (GetControllerButtonState d (index r) 0);
               handle = GetHandle (widget_objects s hw)
           in if xx r = theX \<and> yy r = theY \<and> pressed r = pressed' \<and> widget r = handle
              then filter is_motion_event (body_calls d s r) = []
                   \<and> xx r' = xx r \<and> yy r' = yy r \<and> pressed r' = pressed r \<and> widget r' = widget r
              else filter is_motion_event (body_calls d s r)
                     = [CallHandleMotionEvent (handleMotionEventMethod s) handle (index r) pressed' theX theY]
                   \<and> xx r' = theX \<and> yy r' = theY \<and> pressed r' = pressed' \<and> widget r' = handle))
   \<and> (handleMotionEventMethod s = None \<and> k < length (controllers s) \<longrightarrow>
        filter is_motion_event (body_calls d s (controllers s ! k)) = []
        \<and> controllers (fst (UpdateControllers d s)) ! k = controllers s ! k)
   \<and> snd (UpdateControllers d s) = concat (map (body_calls d s) (controllers s))"
proof (intro conjI impI)
  assume a: "handleMotionEventMethod s \<noteq> None \<and> k < length (controllers s)
      \<and> hitWidget_of d s (controllers s ! k) = Some hw"
  let ?r = "controllers s ! k"
  have r': "controllers (fst (UpdateControllers d s)) ! k = body_record d s ?r"
    using a by (simp add: UpdateControllers_eq)
  from a have e: "body_record d s ?r
           = fst (scroll_step d s (fst (motion_step d s hw (hitPoint_of d s ?r) ?r)))"
     "body_calls d s ?r
           = gesture_block s @ snd (motion_step d s hw (hitPoint_of d s ?r) ?r)
               @ snd (scroll_step d s (fst (motion_step d s hw (hitPoint_of d s ?r) ?r)))"
    by (simp_all add: body_entered)
  show "case ConvertToWidgetCoordinates (widget_objects s hw) (hitPoint_of d s (controllers s ! k)) of
         (theX, theY) \<Rightarrow>
           let r = controllers s ! k;
               r' = controllers (fst (UpdateControllers d s)) ! k;
               pressed' = fst (GetControllerButtonState d (index r) 0);
               handle = GetHandle (widget_objects s hw)
           in if xx r = theX \<and> yy r = theY \<and> pressed r = pressed' \<and> widget r = handle
              then filter is_motion_event (body_calls d s r) = []
                   \<and> xx r' = xx r \<and> yy r' = yy r \<and> pressed r' = pressed r \<and> widget r' = widget r
              else filter is_motion_event (body_calls d s r)
                     = [CallHandleMotionEvent (handleMotionEventMethod s) handle (index r) pressed' theX theY]
                   \<and> xx r' = theX \<and> yy r' = theY \<and> pressed r' = pressed' \<and> widget r' = handle"
    by (simp add: r' e scroll_step_fields motion_step_fields motion_step_calls
          Let_def split: prod.split)
next
  assume a: "handleMotionEventMethod s = None \<and> k < length (controllers s)"
  then have "body_record d s (controllers s ! k) = controllers s ! k"
    and "body_calls d s (controllers s ! k) = gesture_block s"
    by (simp_all add: body_skipped)
  then show "filter is_motion_event (body_calls d s (controllers s ! k)) = []"
    and "controllers (fst (UpdateControllers d s)) ! k = controllers s ! k"
    using a by (simp_all add: UpdateControllers_eq)
next
  show "snd (UpdateControllers d s) = concat (map (body_calls d s) (controllers s))"
    by (simp add: UpdateControllers_eq)
qed

theorem C2_edge_triggered_pointer_event_witness:
  "handleMotionEventMethod (pointing_world (Some 1) (Some 2) fresh_record still_device) \<noteq> None
   \<and> 0 < length (controllers (pointing_world (Some 1) (Some 2) fresh_record still_device))
   \<and> hitWidget_of still_device (pointing_world (Some 1) (Some 2) fresh_record still_device)
        (controllers (pointing_world (Some 1) (Some 2) fresh_record still_device) ! 0) = Some 1
   \<and> filter is_motion_event
        (snd (UpdateControllers still_device (pointing_world (Some 1) (Some 2) fresh_record still_device)))
       = [CallHandleMotionEvent (Some 1) 5 0 False 100 50]
   \<and> filter is_motion_event
        (snd (UpdateControllers still_device (pointing_world (Some 1) (Some 2) sent_record still_device)))
       = []"
  using C2_edge_triggered_pointer_event
          [of "pointing_world (Some 1) (Some 2) fresh_record still_device" 0 still_device 1]
        C2_edge_triggered_pointer_event
          [of "pointing_world (Some 1) (Some 2) sent_record still_device" 0 still_device 1]
  by (simp add: scene_defs)

subsection \<open>Scroll events\<close>




subsection \<open>Pointer highlights\<close>


lemma hitWidget_of_in_widgets:
  assumes "hitWidget_of d s r = Some w"
  shows "w \<in> set (widgets s)"
proof (cases "\<exists>v \<in> set (widgets s). in_bounds_hit d s r v \<and> hit_distance d s r v < farClip s")
  case True
  from widgets_loop_some [OF True, of "pointer_toggled s" None "Vector 0 0 0"]
  obtain pre w' post where "widgets s = pre @ w' # post"
    and "fst (snd (hit_test d s (pointer_toggled s) r)) = Some w'"
    by (auto simp: hit_test_def)
  with assms show ?thesis by (simp add: hitWidget_of_def)
next
  case False
  then have "\<forall>v \<in> set (widgets s). in_bounds_hit d s r v \<longrightarrow> farClip s \<le> hit_distance d s r v"
    by auto
  from widgets_loop_none [OF this, of "pointer_toggled s" None "Vector 0 0 0"] assms
  show ?thesis by (simp add: hit_test_def hitWidget_of_def)
qed

lemma body_active_eq:
  "body_active d s r =
     (if handleMotionEventMethod s \<noteq> None
      then (case hitWidget_of d s r of None \<Rightarrow> [] | Some hw \<Rightarrow> [hw])
      else [])"
  by (cases "hitWidget_of d s r") (simp_all add: body_entered body_skipped)

lemma body_active_member:
  "w \<in> set (body_active d s r) \<longleftrightarrow>
     handleMotionEventMethod s \<noteq> None \<and> hitWidget_of d s r = Some w"
  by (cases "hitWidget_of d s r"; cases "handleMotionEventMethod s")
     (auto simp: body_entered body_skipped)

lemma active_widgets:
  "w \<in> set (concat (map (body_active d s) rs)) \<longleftrightarrow>
     handleMotionEventMethod s \<noteq> None \<and> (\<exists>r \<in> set rs. hitWidget_of d s r = Some w)"
  by (simp add: body_active_member)

text \<open>C6, as stated, fails: with a null motion-event handle the nearest hit widget of a
  controller is left without highlight; and with no controller record a highlight that was
  on stays on.\<close>


theorem C6_counterexample:
  "hitWidget_of still_device (pointing_world None None fresh_record still_device)
       (controllers (pointing_world None None fresh_record still_device) ! 0) = Some 1
   \<and> \<not> pointer_toggled (fst (UpdateControllers still_device
           (pointing_world None None fresh_record still_device))) 1
   \<and> controllers stale_world = []
   \<and> pointer_toggled (fst (UpdateControllers still_device stale_world)) 1"
  by (simp add: scene_defs)

text \<open>C6, amended. After \<^verbatim>\<open>UpdateControllers\<close> on a state with at least one controller
  record, a widget of the widget list has its pointer highlight on exactly when the
  motion-event handle is not null and the widget was the nearest hit of at least one
  controller this frame; every other widget of the list has it off. With no controller
  record, and for a widget outside the list, the highlight is what it was.\<close>


theorem C6_pointer_highlights:
  "pointer_toggled (fst (UpdateControllers d s)) w =
     (if controllers s \<noteq> [] \<and> w \<in> set (widgets s)
      then handleMotionEventMethod s \<noteq> None \<and> (\<exists>r \<in> set (controllers s). hitWidget_of d s r = Some w)
      else pointer_toggled s w)"
proof -
  let ?A = "w \<in> set (concat (map (body_active d s) (controllers s)))"
  have a: "?A \<longleftrightarrow> handleMotionEventMethod s \<noteq> None
             \<and> (\<exists>r \<in> set (controllers s). hitWidget_of d s r = Some w)"
    by (rule active_widgets)
  have "w \<in> set (widgets s)" if ?A
    using that hitWidget_of_in_widgets unfolding a by blast
  moreover have "controllers s \<noteq> []" if ?A
    using that by auto
  moreover have "pointer_toggled (fst (UpdateControllers d s)) w =
     (if ?A then True
      else if controllers s \<noteq> [] \<and> w \<in> set (widgets s) then False
      else pointer_toggled s w)"
    by (simp add: UpdateControllers_eq)
  ultimately show ?thesis
    unfolding a by (cases "controllers s \<noteq> [] \<and> w \<in> set (widgets s)") auto
qed

theorem C6_pointer_highlights_witness:
  "controllers (pointing_world (Some 1) (Some 2) fresh_record still_device) \<noteq> []
   \<and> 1 \<in> set (widgets (pointing_world (Some 1) (Some 2) fresh_record still_device))
   \<and> handleMotionEventMethod (pointing_world (Some 1) (Some 2) fresh_record still_device) \<noteq> None
   \<and> (\<exists>r \<in> set (controllers (pointing_world (Some 1) (Some 2) fresh_record still_device)).
         hitWidget_of still_device (pointing_world (Some 1) (Some 2) fresh_record still_device) r = Some 1)
   \<and> pointer_toggled (fst (UpdateControllers still_device
         (pointing_world (Some 1) (Some 2) fresh_record still_device))) 1
   \<and> \<not> pointer_toggled (fst (UpdateControllers still_device away_world)) 1"
  using C6_pointer_highlights
          [of still_device "pointing_world (Some 1) (Some 2) fresh_record still_device" 1]
        C6_pointer_highlights [of still_device away_world 1]
  by (simp add: scene_defs)

subsection \<open>Gestures\<close>


lemma motion_step_no_gesture [simp]:
  "filter is_gesture_event (snd (motion_step d s hw pt record)) = []"
  by (auto simp: motion_step_def Let_def split: prod.split)

lemma scroll_step_no_gesture [simp]:
  "filter is_gesture_event (snd (scroll_step d s record)) = []"
  by (auto simp: scroll_step_def split: prod.split)

lemma body_calls_gestures: "filter is_gesture_event (body_calls d s r) = gesture_block s"
proof (cases "handleMotionEventMethod s = None \<or> hitWidget_of d s r = None")
  case True
  then show ?thesis by (simp add: body_skipped)
next
  case False
  then obtain hw where "handleMotionEventMethod s \<noteq> None" "hitWidget_of d s r = Some hw"
    by auto
  then show ?thesis by (simp add: body_entered)
qed

lemma UpdateControllers_gestures:
  "filter is_gesture_event (snd (UpdateControllers d s))
     = concat (map (\<lambda>r. gesture_block s) (controllers s))"
  by (simp add: UpdateControllers_eq filter_concat comp_def body_calls_gestures)

lemma gesture_loop_eq:
  "gesture_loop s g counts =
     (case handleGestureMethod s of
        None \<Rightarrow> []
      | Some m \<Rightarrow>
          map (\<lambda>t. CallHandleGesture (Some m)
                     (if t = SwipeLeft then GestureSwipeLeft else GestureSwipeRight))
            (filter (\<lambda>t. t = SwipeLeft \<or> t = SwipeRight) (map (GetGestureType g) counts)))"
  by (induction counts)
     (auto simp: gesture_call_def Let_def GestureSwipeLeft_def GestureSwipeRight_def
           split: option.split)

text \<open>One pass of the gesture block: every pending gesture of the source is read, in
  order, and with a gesture handle that is not null each gesture of kind SwipeLeft or
  SwipeRight gives one host call with its code; a gesture of another kind gives none.\<close>

lemma gesture_block_eq:
  "gesture_block s =
     (case gestures s of
        None \<Rightarrow> []
      | Some g \<Rightarrow>
          (case handleGestureMethod s of
             None \<Rightarrow> []
           | Some m \<Rightarrow>
               map (\<lambda>t. CallHandleGesture (Some m)
                          (if t = SwipeLeft then GestureSwipeLeft else GestureSwipeRight))
                 (filter (\<lambda>t. t = SwipeLeft \<or> t = SwipeRight)
                    (map (\<lambda>count. GetGestureType g (int count))
                       [0 ..< nat (GetGestureCount g)]))))"
  by (simp add: gesture_block_def gesture_loop_eq comp_def split: option.split)

text \<open>C4 at a gesture source with a left swipe, a gesture of another kind and a right swipe
  pending, with the gesture handle resolved, in frames that differ in the number of
  controller records only. The gesture block is inside the loop over the records: with one
  record the host receives each swipe once, with two records it receives each swipe twice,
  and with no record it receives none.\<close>

theorem C4_gestures_once_per_record:
  "GetGestureCount swipe_source = 3
   \<and> map (GetGestureType swipe_source) [0, 1, 2] = [SwipeLeft, OtherGesture 0, SwipeRight]
   \<and> snd (UpdateControllers still_device (gesture_world (Some 3) [fresh_record]))
       = [CallHandleGesture (Some 3) 0, CallHandleGesture (Some 3) 1]
   \<and> snd (UpdateControllers still_device (gesture_world (Some 3) [fresh_record, second_record]))
       = [CallHandleGesture (Some 3) 0, CallHandleGesture (Some 3) 1,
          CallHandleGesture (Some 3) 0, CallHandleGesture (Some 3) 1]
   \<and> snd (UpdateControllers still_device (gesture_world (Some 3) [])) = []"
  by (simp add: scene_defs swipe_source_def gesture_world_def second_record_def upt_rec)

subsection \<open>Null callback handles\<close>

text \<open>C5 at three inputs that differ in the handles only. The controller points at a
  widget, the touchpad was touched in the frame before and reports a new delta. With the
  motion-event handle resolved and the scroll-event handle null, the scroll call is made
  through the null handle. With the motion-event handle null and the scroll-event handle
  resolved, no scroll event is emitted. With both resolved the scroll event is emitted through
  the scroll-event handle. At initialisation, a class without the scroll method leaves the
  scroll-event handle null and the other four resolved, and no failure is logged; a class
  with all five methods has the lookup of the scroll method logged as failed.\<close>


theorem C5_scroll_call_through_null_handle:
  "handleMotionEventMethod (pointing_world (Some 1) None touched_record (scroll_device (1 / 2) 0)) = Some 1
   \<and> handleScrollEventMethod (pointing_world (Some 1) None touched_record (scroll_device (1 / 2) 0)) = None
   \<and> snd (UpdateControllers (scroll_device (1 / 2) 0)
            (pointing_world (Some 1) None touched_record (scroll_device (1 / 2) 0)))
       = [CallHandleScrollEvent None 5 0 (Finite 5) (Finite 0)]
   \<and> handleMotionEventMethod (pointing_world None (Some 2) touched_record (scroll_device (1 / 2) 0)) = None
   \<and> handleScrollEventMethod (pointing_world None (Some 2) touched_record (scroll_device (1 / 2) 0)) = Some 2
   \<and> snd (UpdateControllers (scroll_device (1 / 2) 0)
            (pointing_world None (Some 2) touched_record (scroll_device (1 / 2) 0)))
       = []
   \<and> snd (UpdateControllers (scroll_device (1 / 2) 0)
            (pointing_world (Some 1) (Some 2) touched_record (scroll_device (1 / 2) 0)))
       = [CallHandleScrollEvent (Some 2) 5 0 (Finite 5) (Finite 0)]
   \<and> handleScrollEventMethod (fst (InitializeJava_methods class_without_scroll one_controller_device)) = None
   \<and> handleMotionEventMethod (fst (InitializeJava_methods class_without_scroll one_controller_device)) \<noteq> None
   \<and> snd (InitializeJava_methods class_without_scroll one_controller_device) = []
   \<and> snd (InitializeJava_methods full_class one_controller_device)
       = [VRB_LOG ''Failed to find Java method: handleScrollEvent (IIFF)V'']"
  by (simp add: scene_defs InitializeJava_methods_def failed_to_find_def full_class_def
        class_without_scroll_def one_controller_device_def
        kDispatchCreateWidgetName_def kDispatchCreateWidgetSignature_def
        kHandleMotionEventName_def kHandleMotionEventSignature_def
        kHandleScrollEvent_def kHandleScrollEventSignature_def
        kHandleAudioPoseName_def kHandleAudioPoseSignature_def
        kHandleGestureName_def kHandleGestureSignature_def)

subsection \<open>Copies of a controller record\<close>

text \<open>C7 at the record that \<^verbatim>\<open>InitializeJava\<close> creates for one controller, and at a copy
  of a record after a pointer event. The record moved into the vector has the index, the
  widget and the node of the constructed record, and the pressed flag, the coordinates and
  the touch fields of the storage it was constructed in; the assignment operator, in the same
  storage, yields the constructed record. A copy of a record whose last pointer event was
  (5, 0, false, 100, 50) into zeroed storage has coordinates (0, 0), and the frame that
  emits nothing for the original emits the same pointer event again for the copy.\<close>


theorem C7_constructed_record_loses_fields:
  "controllers (create_controllers (\<lambda>ix. 7) (\<lambda>ix. stale_storage) one_controller_device)
     = [\<lparr> index = 0, widget = 0, pressed = True, xx = 7, yy = 8,
          touched = 1, touchPadX = 3, touchPadY = 4, controller = 7 \<rparr>]
   \<and> ControllerRecord_ctor 0 7
     = \<lparr> index = 0, widget = 0, pressed = False, xx = 0, yy = 0,
         touched = 0, touchPadX = 0, touchPadY = 0, controller = 7 \<rparr>
   \<and> ControllerRecord_assign stale_storage (ControllerRecord_ctor 0 7) = ControllerRecord_ctor 0 7
   \<and> ControllerRecord_copy zero_storage sent_record = fresh_record \<lparr> widget := 5 \<rparr>
   \<and> snd (UpdateControllers still_device
            (pointing_world (Some 1) (Some 2) sent_record still_device)) = []
   \<and> snd (UpdateControllers still_device
            (pointing_world (Some 1) (Some 2) (ControllerRecord_copy zero_storage sent_record) still_device))
       = [CallHandleMotionEvent (Some 1) 5 0 False 100 50]"
  by (simp add: scene_defs create_controllers_def push_back_def ControllerRecord_move_def
        ControllerRecord_copy_def ControllerRecord_assign_def CopyValues_def
        stale_storage_def zero_storage_def one_controller_device_def)

subsection \<open>The frame\<close>

text \<open>C9. When the device delegate is absent or the world is paused, \<^verbatim>\<open>Draw\<close> leaves the
  state as it is (controller records, pointer highlights, controller nodes and the GL flag
  included) and does nothing but write one log line: no host call, no call into the device,
  the context or the draw list.\<close>


theorem C9_paused_draw_is_noop:
  "device s = None \<or> paused s \<Longrightarrow>
   fst (Draw no_vr_api s) = s
   \<and> snd (Draw no_vr_api s)
       = [VRB_LOG (if device s = None then ''No device'' else ''BrowserWorld Paused'')]"
proof (cases "device s")
  case None
  then show ?thesis by (simp add: Draw_def)
next
  case (Some d)
  assume "device s = None \<or> paused s"
  with Some have "paused s" by simp
  with Some show ?thesis by (simp add: Draw_def)
qed

theorem C9_paused_draw_is_noop_witness:
  "(device paused_world = None \<or> paused paused_world)
   \<and> handleMotionEventMethod paused_world \<noteq> None
   \<and> fst (Draw False paused_world) = paused_world
   \<and> snd (Draw False paused_world) = [VRB_LOG ''BrowserWorld Paused'']
   \<and> (device unregistered_world = None \<or> paused unregistered_world)
   \<and> snd (Draw False unregistered_world) = [VRB_LOG ''No device'']"
  using C9_paused_draw_is_noop [of paused_world False]
        C9_paused_draw_is_noop [of unregistered_world False]
  by (simp add: scene_defs paused_world_def unregistered_world_def)


lemma render_frame_ops:
  "filter is_render_op (snd (render_frame no_vr_api d s)) =
     [DrawList_Reset, Cull, StartFrame, BindEye CameraLeft, DrawList_Draw CameraLeft]
     @ (if no_vr_api then [] else [BindEye CameraRight, DrawList_Draw CameraRight])
     @ [EndFrame]"
proof -
  have host: "filter is_render_op (map Host calls) = []" for calls
    by (induction calls) simp_all
  show ?thesis
    by (simp add: render_frame_def host split: prod.split)
qed

text \<open>C8. In a \<^verbatim>\<open>Draw\<close> that reaches rendering (device present, not paused, GL
  initialised or initialised now), the operations on the draw list, the eyes and the frame
  are, in this order: reset of the draw list, one cull, start of the frame, the left eye
  bound and drawn, then (unless the build has no VR API) the right eye bound and drawn, end
  of the frame. So the cull precedes both draws, nothing is culled between them, and the
  left eye is drawn before the right eye.\<close>


theorem C8_cull_then_left_then_right:
  assumes "device s = Some d" and "\<not> paused s" and "glInitialized s \<or> context_InitializeGL s"
  shows "filter is_render_op (snd (Draw no_vr_api s)) =
     [DrawList_Reset, Cull, StartFrame, BindEye CameraLeft, DrawList_Draw CameraLeft]
     @ (if no_vr_api then [] else [BindEye CameraRight, DrawList_Draw CameraRight])
     @ [EndFrame]"
  using assms
  by (auto simp: Draw_def render_frame_ops Let_def case_prod_unfold)

theorem C8_cull_then_left_then_right_witness:
  "device (pointing_world (Some 1) (Some 2) fresh_record still_device) = Some still_device
   \<and> \<not> paused (pointing_world (Some 1) (Some 2) fresh_record still_device)
   \<and> glInitialized (pointing_world (Some 1) (Some 2) fresh_record still_device)
   \<and> snd (Draw False (pointing_world (Some 1) (Some 2) fresh_record still_device))
       = [ProcessEvents, Context_Update, Host (CallHandleMotionEvent (Some 1) 5 0 False 100 50),
          DrawList_Reset, Cull, StartFrame, BindEye CameraLeft, DrawList_Draw CameraLeft,
          BindEye CameraRight, DrawList_Draw CameraRight, EndFrame]
   \<and> filter is_render_op (snd (Draw True (pointing_world (Some 1) (Some 2) fresh_record still_device)))
       = [DrawList_Reset, Cull, StartFrame, BindEye CameraLeft, DrawList_Draw CameraLeft, EndFrame]"
  using C8_cull_then_left_then_right
          [of "pointing_world (Some 1) (Some 2) fresh_record still_device" still_device True]
  by (simp add: scene_defs Draw_def render_frame_def audio_pose_def)

end
